theory Spec2Isabelle
  imports Complex_Main "HOL-Library.Sublist" "HOL-Library.Multiset"
begin

section \<open>remit-lens: the remittance comparison engine (remit/compare.py)\<close>

text \<open>
  Numbers. The Python source computes on \<open>float\<close>. The embedding takes the finite
  numbers only and computes on them exactly, as rationals: the decimal constants of the
  provider table are the decimals written in the source, and \<open>round(x, n)\<close> is rounding
  to \<open>n\<close> decimals with ties going to the even neighbour, which is what Python 3 does
  on the value it is given. Infinities and NaN are outside the model.
\<close>

definition round_half_even :: "rat \<Rightarrow> int" where
  "round_half_even y =
     (let f = \<lfloor>y\<rfloor>; d = y - of_int f
      in if d < 1 / 2 then f
         else if 1 / 2 < d then f + 1
         else if even f then f else f + 1)"

definition py_round :: "rat \<Rightarrow> nat \<Rightarrow> rat" where
  "py_round x n = of_int (round_half_even (x * 10 ^ n)) / 10 ^ n"

text \<open>\<open>int(x)\<close> truncates towards zero; \<open>str\<close> of an integer is its decimal numeral.\<close>

definition py_int :: "rat \<Rightarrow> int" where
  "py_int x = (if 0 \<le> x then \<lfloor>x\<rfloor> else \<lceil>x\<rceil>)"

fun str_nat :: "nat \<Rightarrow> string" where
  "str_nat n =
     (if n < 10 then [''0123456789'' ! n]
      else str_nat (n div 10) @ [''0123456789'' ! (n mod 10)])"

definition str_int :: "int \<Rightarrow> string" where
  "str_int i = (if i < 0 then CHR ''-'' # str_nat (nat (- i)) else str_nat (nat i))"

subsection \<open>Strings\<close>

text \<open>\<open>sub in s\<close> on two strings: \<open>sub\<close> occurs in \<open>s\<close> as a contiguous run.\<close>

fun str_contains :: "string \<Rightarrow> string \<Rightarrow> bool" where
  "str_contains sub [] = (sub = [])"
| "str_contains sub (c # cs) = (prefix sub (c # cs) \<or> str_contains sub cs)"

text \<open>\<open>sep.join(xs)\<close>.\<close>

fun join :: "string \<Rightarrow> string list \<Rightarrow> string" where
  "join sep [] = []"
| "join sep [x] = x"
| "join sep (x # y # ys) = x @ sep @ join sep (y # ys)"

text \<open>
  \<open>template.format(amount=a, **{"from": f})\<close> for the templates of the provider
  table, whose only replacement fields are \<open>{amount}\<close> and \<open>{from}\<close>: each field is
  replaced by its argument and every other character is copied.
\<close>

fun format_url :: "string \<Rightarrow> string \<Rightarrow> string \<Rightarrow> string" where
  "format_url [] amount from_c = []"
| "format_url (c # cs) amount from_c =
     (if prefix ''{amount}'' (c # cs) then amount @ format_url (drop 7 cs) amount from_c
      else if prefix ''{from}'' (c # cs) then from_c @ format_url (drop 5 cs) amount from_c
      else c # format_url cs amount from_c)"

subsection \<open>Data types\<close>

text \<open>
  The dataclass \<open>Quote\<close>. The field \<open>retrieved_at\<close> (the wall clock at construction)
  is read by no operation of the engine and is left out.
\<close>

record Quote =
  provider :: string
  send_currency :: string
  receive_currency :: string
  send_amount :: rat
  receive_amount :: rat
  fee :: rat
  exchange_rate :: rat
  mid_market_rate :: rat
  spread_percent :: rat
  transfer_time :: string
  delivery_method :: string
  estimated :: bool
  url :: string

definition true_cost_percent :: "Quote \<Rightarrow> rat" where
  "true_cost_percent q =
     (let fee_percent =
            (if 0 < Quote.send_amount q then (fee q / Quote.send_amount q) * 100 else 0)
      in py_round (fee_percent + spread_percent q) 2)"

definition kes_per_dollar_effective :: "Quote \<Rightarrow> rat" where
  "kes_per_dollar_effective q =
     (if Quote.send_amount q \<le> 0 then 0
      else let net_send = Quote.send_amount q - fee q
           in if 0 < net_send then py_round (receive_amount q / net_send) 2 else 0)"

text \<open>The dataclass \<open>Comparison\<close> (again without \<open>retrieved_at\<close>).\<close>

record Comparison =
  send_currency :: string
  receive_currency :: string
  send_amount :: rat
  mid_market_rate :: rat
  quotes :: "Quote list"

text \<open>
  \<open>max(xs, key=k)\<close> and \<open>min(xs, key=k)\<close> on a list that is not empty: one pass
  from the left that replaces the candidate only by a strictly better element, so the
  first of several best elements is returned.
\<close>

fun max_from :: "('a \<Rightarrow> 'k::linorder) \<Rightarrow> 'a \<Rightarrow> 'a list \<Rightarrow> 'a" where
  "max_from key best [] = best"
| "max_from key best (x # xs) = max_from key (if key best < key x then x else best) xs"

fun min_from :: "('a \<Rightarrow> 'k::linorder) \<Rightarrow> 'a \<Rightarrow> 'a list \<Rightarrow> 'a" where
  "min_from key best [] = best"
| "min_from key best (x # xs) = min_from key (if key x < key best then x else best) xs"

definition best_rate :: "Comparison \<Rightarrow> Quote option" where
  "best_rate c =
     (case quotes c of
        [] \<Rightarrow> None
      | q # qs \<Rightarrow> Some (max_from receive_amount q qs))"

definition order :: "(string \<times> nat) list" where
  "order =
     [(''instant'', 0), (''minutes'', 1), (''1-3 hours'', 2), (''hours'', 3),
      (''1-3 days'', 4), (''days'', 5)]"

definition order_get :: "string \<Rightarrow> nat" where
  "order_get t = (case map_of order t of Some r \<Rightarrow> r | None \<Rightarrow> 99)"

definition fastest :: "Comparison \<Rightarrow> Quote option" where
  "fastest c =
     (case quotes c of
        [] \<Rightarrow> None
      | q # qs \<Rightarrow> Some (min_from (\<lambda>q. order_get (transfer_time q)) q qs))"

definition most_trusted :: "Comparison \<Rightarrow> Quote option" where
  "most_trusted c =
     (let mpesa_quotes = filter (\<lambda>q. str_contains ''M-Pesa'' (delivery_method q)) (quotes c)
      in case mpesa_quotes of
           [] \<Rightarrow> best_rate c
         | q # qs \<Rightarrow> Some (min_from true_cost_percent q qs))"

text \<open>\<open>sorted(xs, key=k)\<close> is the stable sort by key of the library.\<close>

definition ranked :: "Comparison \<Rightarrow> Quote list" where
  "ranked c = sort_key true_cost_percent (quotes c)"

subsection \<open>Exchange rate\<close>

definition FALLBACKS :: "((string \<times> string) \<times> rat) list" where
  "FALLBACKS =
     [((''USD'', ''KES''), 12950 / 100),
      ((''GBP'', ''KES''), 16420 / 100),
      ((''EUR'', ''KES''), 14080 / 100),
      ((''CAD'', ''KES''), 9530 / 100),
      ((''AED'', ''KES''), 3525 / 100),
      ((''AUD'', ''KES''), 8460 / 100)]"

text \<open>
  \<open>get_mid_market_rate\<close>. The network request is the first argument: \<open>Some r\<close> when
  the feed answered with a number \<open>r\<close> for the target currency, \<open>None\<close> for every
  other outcome (an exception, no entry, an entry that is not a number).
\<close>

definition get_mid_market_rate :: "rat option \<Rightarrow> string \<Rightarrow> string \<Rightarrow> rat" where
  "get_mid_market_rate live from_currency to_currency =
     (case live of
        Some rate \<Rightarrow>
          if rate \<noteq> 0 \<and> 0 < rate then rate
          else (case map_of FALLBACKS (from_currency, to_currency) of
                  Some r \<Rightarrow> r | None \<Rightarrow> 0)
      | None \<Rightarrow>
          (case map_of FALLBACKS (from_currency, to_currency) of
             Some r \<Rightarrow> r | None \<Rightarrow> 0))"

subsection \<open>Provider rate tables\<close>

record Profile =
  spread_pct :: rat
  fee_type :: string
  fee_pct :: rat
  fee_fixed :: rat
  time :: string
  delivery :: "string list"
  url_template :: string
  notes_text :: string

definition PROVIDER_PROFILES :: "(string \<times> Profile) list" where
  "PROVIDER_PROFILES =
     [(''Wise'',
       \<lparr>spread_pct = 55 / 100, fee_type = ''percent+fixed'', fee_pct = 41 / 100,
        fee_fixed = 0, time = ''minutes'', delivery = [''M-Pesa'', ''Bank deposit''],
        url_template = ''https://wise.com/send#payInMethod=CARD&sendAmount={amount}&sourceCurrency={from}&targetCurrency=KES'',
        notes_text = ''Best rate, M-Pesa delivery, slightly slower than instant''\<rparr>),
      (''Remitly'',
       \<lparr>spread_pct = 12 / 10, fee_type = ''tiered'', fee_pct = 0,
        fee_fixed = 399 / 100, time = ''instant'', delivery = [''M-Pesa'', ''Bank deposit''],
        url_template = ''https://www.remitly.com/us/en/kenya'',
        notes_text = ''Instant to M-Pesa. Economy tier is cheaper but slower.''\<rparr>),
      (''WorldRemit'',
       \<lparr>spread_pct = 18 / 10, fee_type = ''fixed'', fee_pct = 0,
        fee_fixed = 399 / 100, time = ''minutes'',
        delivery = [''M-Pesa'', ''Bank deposit'', ''Cash pickup''],
        url_template = ''https://www.worldremit.com/en/send-money/to-kenya'',
        notes_text = ''Wider network, cash pickup at major towns''\<rparr>),
      (''Western Union'',
       \<lparr>spread_pct = 35 / 10, fee_type = ''tiered'', fee_pct = 0,
        fee_fixed = 5, time = ''minutes'',
        delivery = [''M-Pesa'', ''Cash pickup'', ''Bank deposit''],
        url_template = ''https://www.westernunion.com/us/en/send-money/app/start'',
        notes_text = ''High spread; useful mainly for cash pickup in remote areas''\<rparr>),
      (''Sendwave'',
       \<lparr>spread_pct = 1, fee_type = ''zero'', fee_pct = 0,
        fee_fixed = 0, time = ''instant'', delivery = [''M-Pesa''],
        url_template = ''https://www.sendwave.com/'',
        notes_text = ''Zero fee, instant M-Pesa. Spread slightly wider than Wise.''\<rparr>),
      (''Mukuru'',
       \<lparr>spread_pct = 21 / 10, fee_type = ''fixed'', fee_pct = 0,
        fee_fixed = 45 / 10, time = ''1-3 hours'', delivery = [''Cash pickup'', ''Bank deposit''],
        url_template = ''https://www.mukuru.com/ke/'',
        notes_text = ''Strong East Africa footprint; popular for cash collection''\<rparr>),
      (''LemFi'',
       \<lparr>spread_pct = 8 / 10, fee_type = ''percent'', fee_pct = 5 / 10,
        fee_fixed = 0, time = ''minutes'', delivery = [''M-Pesa'', ''Bank deposit''],
        url_template = ''https://lemfi.com/'',
        notes_text = ''Newer provider; competitive rates for diaspora Africans''\<rparr>)]"

subsection \<open>Comparison engine\<close>

datatype error = ValueError string

text \<open>The fee of one provider, in the source currency (the \<open>if\<close>/\<open>elif\<close> chain).\<close>

definition calc_fee :: "Profile \<Rightarrow> rat \<Rightarrow> rat" where
  "calc_fee p amount =
     (if fee_type p = ''zero'' then 0
      else if fee_type p = ''percent'' then amount * fee_pct p / 100
      else if fee_type p = ''percent+fixed'' then (amount * fee_pct p / 100) + fee_fixed p
      else fee_fixed p)"

text \<open>One pass of the loop body of \<open>compare\<close> for a name that is in the table.\<close>

definition make_quote :: "string \<Rightarrow> Profile \<Rightarrow> rat \<Rightarrow> rat \<Rightarrow> string \<Rightarrow> string \<Rightarrow> Quote" where
  "make_quote name p mid_rate amount from_currency to_currency =
     (let fee_v = calc_fee p amount;
          their_rate = mid_rate * (1 - spread_pct p / 100);
          net_send = amount - fee_v;
          receive = (if 0 < net_send then net_send * their_rate else 0)
      in \<lparr>provider = name,
          send_currency = from_currency,
          receive_currency = to_currency,
          send_amount = amount,
          receive_amount = py_round receive 2,
          fee = py_round fee_v 2,
          exchange_rate = py_round their_rate 4,
          mid_market_rate = py_round mid_rate 4,
          spread_percent = py_round (spread_pct p) 2,
          transfer_time = time p,
          delivery_method = join '', '' (delivery p),
          estimated = True,
          url = format_url (url_template p) (str_int (py_int amount)) from_currency\<rparr>)"

text \<open>The loop over the active providers: a name that is not in the table is skipped.\<close>

fun build_quotes :: "rat \<Rightarrow> rat \<Rightarrow> string \<Rightarrow> string \<Rightarrow> string list \<Rightarrow> Quote list" where
  "build_quotes mid_rate amount from_currency to_currency [] = []"
| "build_quotes mid_rate amount from_currency to_currency (name # rest) =
     (case map_of PROVIDER_PROFILES name of
        None \<Rightarrow> build_quotes mid_rate amount from_currency to_currency rest
      | Some p \<Rightarrow>
          make_quote name p mid_rate amount from_currency to_currency
            # build_quotes mid_rate amount from_currency to_currency rest)"

text \<open>
  \<open>compare\<close>. The first argument is the outcome of the network request made by
  \<open>get_mid_market_rate\<close>; \<open>providers\<close> is \<open>None\<close> or a list, and
  \<open>providers or list(_PROVIDER_PROFILES.keys())\<close> takes the whole table for both
  \<open>None\<close> and the empty list.
\<close>

definition compare ::
  "rat option \<Rightarrow> rat \<Rightarrow> string \<Rightarrow> string \<Rightarrow> string list option \<Rightarrow> error + Comparison" where
  "compare live amount from_currency to_currency providers =
     (let mid_rate = get_mid_market_rate live from_currency to_currency
      in if mid_rate \<le> 0
         then Inl (ValueError (''Could not get exchange rate for '' @ from_currency @ ''->'' @ to_currency))
         else
           let active_providers =
                 (case providers of
                    None \<Rightarrow> map fst PROVIDER_PROFILES
                  | Some ps \<Rightarrow> if ps = [] then map fst PROVIDER_PROFILES else ps)
           in Inr \<lparr>send_currency = from_currency,
                   receive_currency = to_currency,
                   send_amount = amount,
                   mid_market_rate = mid_rate,
                   quotes = build_quotes mid_rate amount from_currency to_currency
                              active_providers\<rparr>)"

subsection \<open>Sample values of the unit tests\<close>

text \<open>\<open>_make_comparison\<close> and \<open>_make_quote\<close> of tests/test_compare.py.\<close>

definition make_comparison :: "Quote list \<Rightarrow> Comparison" where
  "make_comparison qs =
     \<lparr>send_currency = ''USD'', receive_currency = ''KES'', send_amount = 200,
      mid_market_rate = 1295 / 10, quotes = qs\<rparr>"

definition make_quote_t :: "string \<Rightarrow> rat \<Rightarrow> rat \<Rightarrow> rat \<Rightarrow> string \<Rightarrow> string \<Rightarrow> Quote" where
  "make_quote_t name receive fee_v spread t d =
     \<lparr>provider = name, send_currency = ''USD'', receive_currency = ''KES'',
      send_amount = 200, receive_amount = receive, fee = fee_v,
      exchange_rate = (1295 / 10) * (1 - spread / 100),
      mid_market_rate = 1295 / 10, spread_percent = spread, transfer_time = t,
      delivery_method = d, estimated = True, url = []\<rparr>"

subsection \<open>The specification's formulas\<close>

text \<open>
  The true cost percentage as the specification words it: the term fee/send_amount is
  taken as 0 when the send amount is not positive.
\<close>

definition true_cost_percent_spec :: "Quote \<Rightarrow> rat" where
  "true_cost_percent_spec q =
     py_round ((if Quote.send_amount q \<le> 0 then 0 else fee q / Quote.send_amount q) * 100
               + spread_percent q) 2"

text \<open>
  The effective rate as the specification words it: receive amount over send amount minus
  fee, 0 when that denominator is not positive, rounded to 4 decimals as a rate output.
\<close>

definition effective_rate_spec :: "Quote \<Rightarrow> rat" where
  "effective_rate_spec q =
     (if Quote.send_amount q - fee q \<le> 0 then 0
      else py_round (receive_amount q / (Quote.send_amount q - fee q)) 4)"


section \<open>Properties\<close>

subsection \<open>Selection by key\<close>

lemma max_from_mem: "max_from key b xs \<in> set (b # xs)"
  by (induction xs arbitrary: b) auto

lemma max_from_ge_best: "key b \<le> key (max_from key b xs)"
proof (induction xs arbitrary: b)
  case Nil
  show ?case by simp
next
  case (Cons x xs)
  show ?case
  proof (cases "key b < key x")
    case True
    have "key x \<le> key (max_from key x xs)" by (rule Cons.IH)
    with True show ?thesis by simp
  next
    case False
    then show ?thesis using Cons.IH [of b] by simp
  qed
qed

lemma max_from_ge: "x \<in> set xs \<Longrightarrow> key x \<le> key (max_from key b xs)"
proof (induction xs arbitrary: b)
  case Nil
  then show ?case by simp
next
  case (Cons y ys)
  let ?b' = "if key b < key y then y else b"
  show ?case
  proof (cases "x = y")
    case True
    have "key y \<le> key ?b'" by (simp add: not_less)
    also have "\<dots> \<le> key (max_from key ?b' ys)" by (rule max_from_ge_best)
    finally show ?thesis using True by simp
  next
    case False
    with Cons.prems have "x \<in> set ys" by simp
    then have "key x \<le> key (max_from key ?b' ys)" by (rule Cons.IH)
    then show ?thesis by simp
  qed
qed

lemma min_from_mem: "min_from key b xs \<in> set (b # xs)"
  by (induction xs arbitrary: b) auto

lemma min_from_le_best: "key (min_from key b xs) \<le> key b"
proof (induction xs arbitrary: b)
  case Nil
  show ?case by simp
next
  case (Cons x xs)
  show ?case
  proof (cases "key x < key b")
    case True
    have "key (min_from key x xs) \<le> key x" by (rule Cons.IH)
    with True show ?thesis by simp
  next
    case False
    then show ?thesis using Cons.IH [of b] by simp
  qed
qed

lemma min_from_le: "x \<in> set xs \<Longrightarrow> key (min_from key b xs) \<le> key x"
proof (induction xs arbitrary: b)
  case Nil
  then show ?case by simp
next
  case (Cons y ys)
  let ?b' = "if key y < key b then y else b"
  show ?case
  proof (cases "x = y")
    case True
    have "key (min_from key ?b' ys) \<le> key ?b'" by (rule min_from_le_best)
    also have "\<dots> \<le> key y" by (simp add: not_less)
    finally show ?thesis using True by simp
  next
    case False
    with Cons.prems have "x \<in> set ys" by simp
    then have "key (min_from key ?b' ys) \<le> key x" by (rule Cons.IH)
    then show ?thesis by simp
  qed
qed

text \<open>
  Claim C7. When there is at least one quote, \<open>best_rate\<close> returns one of the quotes
  and no quote has a larger receive amount; when there is no quote, \<open>best_rate\<close>,
  \<open>fastest\<close> and \<open>most_trusted\<close> all return \<open>None\<close>.
\<close>

theorem best_rate_maximal:
  "(quotes c \<noteq> [] \<longrightarrow>
      (\<exists>q. best_rate c = Some q \<and> q \<in> set (quotes c) \<and>
           (\<forall>q' \<in> set (quotes c). receive_amount q' \<le> receive_amount q))) \<and>
   (quotes c = [] \<longrightarrow> best_rate c = None \<and> fastest c = None \<and> most_trusted c = None)"
proof (cases "quotes c")
  case Nil
  then show ?thesis by (simp add: best_rate_def fastest_def most_trusted_def)
next
  case (Cons q qs)
  have mem: "max_from receive_amount q qs \<in> set (q # qs)" by (rule max_from_mem)
  have top: "receive_amount q' \<le> receive_amount (max_from receive_amount q qs)"
    if "q' \<in> set (q # qs)" for q'
  proof (cases "q' = q")
    case True
    then show ?thesis using max_from_ge_best [of receive_amount q qs] by simp
  next
    case False
    with that have "q' \<in> set qs" by simp
    then show ?thesis by (rule max_from_ge)
  qed
  from Cons mem top show ?thesis by (simp add: best_rate_def)
qed

theorem best_rate_maximal_witness:
  "quotes (make_comparison [make_quote_t ''ProvA'' 25000 0 1 ''minutes'' ''M-Pesa'',
                            make_quote_t ''ProvB'' 26000 0 (1 / 2) ''days'' ''M-Pesa'',
                            make_quote_t ''ProvC'' 24000 0 2 ''instant'' ''M-Pesa'']) \<noteq> [] \<and>
   best_rate (make_comparison [make_quote_t ''ProvA'' 25000 0 1 ''minutes'' ''M-Pesa'',
                            make_quote_t ''ProvB'' 26000 0 (1 / 2) ''days'' ''M-Pesa'',
                            make_quote_t ''ProvC'' 24000 0 2 ''instant'' ''M-Pesa''])
     = Some (make_quote_t ''ProvB'' 26000 0 (1 / 2) ''days'' ''M-Pesa'') \<and>
   quotes (make_comparison []) = [] \<and>
   best_rate (make_comparison []) = None \<and> fastest (make_comparison []) = None \<and>
   most_trusted (make_comparison []) = None"
  using best_rate_maximal [of "make_comparison [make_quote_t ''ProvA'' 25000 0 1 ''minutes'' ''M-Pesa'',
                            make_quote_t ''ProvB'' 26000 0 (1 / 2) ''days'' ''M-Pesa'',
                            make_quote_t ''ProvC'' 24000 0 2 ''instant'' ''M-Pesa'']"]
        best_rate_maximal [of "make_comparison []"]
  by (simp add: make_comparison_def make_quote_t_def best_rate_def)

text \<open>
  Claim C6. When there is at least one quote, \<open>fastest\<close> returns one of the quotes and
  no quote has a smaller rank of its transfer time; the ranks are
  instant < minutes < 1-3 hours < hours < 1-3 days < days, and every other text has
  rank 99, after all of them.
\<close>

theorem fastest_minimal:
  "(quotes c \<noteq> [] \<longrightarrow>
      (\<exists>q. fastest c = Some q \<and> q \<in> set (quotes c) \<and>
           (\<forall>q' \<in> set (quotes c).
              order_get (transfer_time q) \<le> order_get (transfer_time q')))) \<and>
   order_get ''instant'' < order_get ''minutes'' \<and>
   order_get ''minutes'' < order_get ''1-3 hours'' \<and>
   order_get ''1-3 hours'' < order_get ''hours'' \<and>
   order_get ''hours'' < order_get ''1-3 days'' \<and>
   order_get ''1-3 days'' < order_get ''days'' \<and>
   (\<forall>t. t \<notin> {''instant'', ''minutes'', ''1-3 hours'', ''hours'', ''1-3 days'', ''days''} \<longrightarrow>
        order_get ''days'' < order_get t \<and> order_get t = 99)"
proof -
  let ?k = "\<lambda>q. order_get (transfer_time q)"
  have sel: "quotes c \<noteq> [] \<longrightarrow>
      (\<exists>q. fastest c = Some q \<and> q \<in> set (quotes c) \<and>
           (\<forall>q' \<in> set (quotes c). ?k q \<le> ?k q'))"
  proof (cases "quotes c")
    case Nil
    then show ?thesis by simp
  next
    case (Cons q qs)
    have mem: "min_from ?k q qs \<in> set (q # qs)" by (rule min_from_mem)
    have low: "?k (min_from ?k q qs) \<le> ?k q'" if "q' \<in> set (q # qs)" for q'
    proof (cases "q' = q")
      case True
      then show ?thesis using min_from_le_best [of ?k q qs] by simp
    next
      case False
      with that have "q' \<in> set qs" by simp
      then show ?thesis by (rule min_from_le)
    qed
    from Cons mem low show ?thesis by (simp add: fastest_def)
  qed
  have chain: "order_get ''instant'' < order_get ''minutes'' \<and>
     order_get ''minutes'' < order_get ''1-3 hours'' \<and>
     order_get ''1-3 hours'' < order_get ''hours'' \<and>
     order_get ''hours'' < order_get ''1-3 days'' \<and>
     order_get ''1-3 days'' < order_get ''days''"
    by (simp add: order_get_def order_def)
  have other: "\<forall>t. t \<notin> {''instant'', ''minutes'', ''1-3 hours'', ''hours'', ''1-3 days'', ''days''} \<longrightarrow>
        order_get ''days'' < order_get t \<and> order_get t = 99"
    by (simp add: order_get_def order_def)
  from sel chain other show ?thesis by blast
qed

theorem fastest_minimal_witness:
  "quotes (make_comparison [make_quote_t ''Slow'' 26000 0 (1 / 2) ''1-3 days'' ''M-Pesa'',
                            make_quote_t ''Odd'' 26000 0 (1 / 2) ''next week'' ''M-Pesa'',
                            make_quote_t ''Fast'' 24000 0 2 ''instant'' ''M-Pesa'']) \<noteq> [] \<and>
   fastest (make_comparison [make_quote_t ''Slow'' 26000 0 (1 / 2) ''1-3 days'' ''M-Pesa'',
                            make_quote_t ''Odd'' 26000 0 (1 / 2) ''next week'' ''M-Pesa'',
                            make_quote_t ''Fast'' 24000 0 2 ''instant'' ''M-Pesa''])
     = Some (make_quote_t ''Fast'' 24000 0 2 ''instant'' ''M-Pesa'') \<and>
   ''next week'' \<notin> {''instant'', ''minutes'', ''1-3 hours'', ''hours'', ''1-3 days'', ''days''} \<and>
   order_get ''next week'' = 99"
  using fastest_minimal [of "make_comparison [make_quote_t ''Slow'' 26000 0 (1 / 2) ''1-3 days'' ''M-Pesa'',
                            make_quote_t ''Odd'' 26000 0 (1 / 2) ''next week'' ''M-Pesa'',
                            make_quote_t ''Fast'' 24000 0 2 ''instant'' ''M-Pesa'']"]
  by (simp add: make_comparison_def make_quote_t_def fastest_def order_get_def order_def)

subsection \<open>Ranking\<close>

text \<open>
  Claim C2. The true cost percentage of a quote is
  round(fee/send_amount*100 + spread_percent, 2), the term fee/send_amount being 0 when
  the send amount is not positive.
\<close>

theorem true_cost_percent_formula: "true_cost_percent q = true_cost_percent_spec q"
  by (simp add: true_cost_percent_def true_cost_percent_spec_def Let_def not_less)

theorem true_cost_percent_formula_witness:
  "true_cost_percent (make_quote_t ''TestProvider'' 25000 4 (3 / 2) ''minutes'' ''M-Pesa'') = 7 / 2 \<and>
   true_cost_percent_spec (make_quote_t ''TestProvider'' 25000 4 (3 / 2) ''minutes'' ''M-Pesa'') = 7 / 2"
  using true_cost_percent_formula [of "make_quote_t ''TestProvider'' 25000 4 (3 / 2) ''minutes'' ''M-Pesa''"]
  by (simp add: true_cost_percent_spec_def make_quote_t_def py_round_def round_half_even_def)

text \<open>
  Claim C4. \<open>ranked\<close> returns the same quotes in ascending order of true cost
  percentage, and quotes of equal true cost percentage keep the order they had in the
  input list.
\<close>

theorem ranked_sorted_stable:
  "sorted (map true_cost_percent (ranked c)) \<and>
   mset (ranked c) = mset (quotes c) \<and>
   (\<forall>k. filter (\<lambda>q. true_cost_percent q = k) (ranked c)
        = filter (\<lambda>q. true_cost_percent q = k) (quotes c))"
  by (simp add: ranked_def sort_key_stable)

theorem ranked_sorted_stable_witness:
  "ranked (make_comparison [make_quote_t ''Expensive'' 24000 5 3 ''minutes'' ''M-Pesa'',
                            make_quote_t ''Cheap'' 25800 0 (1 / 2) ''minutes'' ''M-Pesa'',
                            make_quote_t ''Tie'' 25000 5 3 ''days'' ''M-Pesa'',
                            make_quote_t ''Mid'' 25000 2 (3 / 2) ''minutes'' ''M-Pesa''])
     = [make_quote_t ''Cheap'' 25800 0 (1 / 2) ''minutes'' ''M-Pesa'',
        make_quote_t ''Mid'' 25000 2 (3 / 2) ''minutes'' ''M-Pesa'',
        make_quote_t ''Expensive'' 24000 5 3 ''minutes'' ''M-Pesa'',
        make_quote_t ''Tie'' 25000 5 3 ''days'' ''M-Pesa''] \<and>
   sorted (map true_cost_percent
     (ranked (make_comparison [make_quote_t ''Expensive'' 24000 5 3 ''minutes'' ''M-Pesa'',
                            make_quote_t ''Cheap'' 25800 0 (1 / 2) ''minutes'' ''M-Pesa'',
                            make_quote_t ''Tie'' 25000 5 3 ''days'' ''M-Pesa'',
                            make_quote_t ''Mid'' 25000 2 (3 / 2) ''minutes'' ''M-Pesa''])))"
  using ranked_sorted_stable [of "make_comparison [make_quote_t ''Expensive'' 24000 5 3 ''minutes'' ''M-Pesa'',
                            make_quote_t ''Cheap'' 25800 0 (1 / 2) ''minutes'' ''M-Pesa'',
                            make_quote_t ''Tie'' 25000 5 3 ''days'' ''M-Pesa'',
                            make_quote_t ''Mid'' 25000 2 (3 / 2) ''minutes'' ''M-Pesa'']"]
  by (simp add: ranked_def make_comparison_def make_quote_t_def true_cost_percent_def
        py_round_def round_half_even_def)

subsection \<open>The comparison engine\<close>

text \<open>
  Claim C1. Whatever the send amount, the currency pair and the provider subset,
  \<open>compare\<close> raises the unavailable-rate error exactly when the resolved mid-market
  rate is at most 0, and returns a Comparison exactly when the rate is positive.
\<close>

theorem compare_raises_iff:
  "(compare live amount from_c to_c providers =
      Inl (ValueError (''Could not get exchange rate for '' @ from_c @ ''->'' @ to_c)))
     = (get_mid_market_rate live from_c to_c \<le> 0) \<and>
   (\<exists>c. compare live amount from_c to_c providers = Inr c)
     = (0 < get_mid_market_rate live from_c to_c)"
  by (auto simp: compare_def Let_def)

theorem compare_raises_iff_witness:
  "get_mid_market_rate None ''XYZ'' ''KES'' \<le> 0 \<and>
   compare None 200 ''XYZ'' ''KES'' None =
      Inl (ValueError ''Could not get exchange rate for XYZ->KES'') \<and>
   0 < get_mid_market_rate (Some (-1)) ''USD'' ''KES'' \<and>
   (\<exists>c. compare (Some (-1)) 200 ''USD'' ''KES'' None = Inr c)"
  using compare_raises_iff [of None 200 "''XYZ''" "''KES''" None]
        compare_raises_iff [of "Some (-1)" 200 "''USD''" "''KES''" None]
  by (simp add: get_mid_market_rate_def FALLBACKS_def)

lemma build_quotes_eq:
  "build_quotes mid amount f t ps =
     map (\<lambda>n. make_quote n (the (map_of PROVIDER_PROFILES n)) mid amount f t)
         (filter (\<lambda>n. n \<in> fst ` set PROVIDER_PROFILES) ps)"
proof (induction ps)
  case Nil
  show ?case by simp
next
  case (Cons n ns)
  show ?case
  proof (cases "map_of PROVIDER_PROFILES n")
    case None
    then have "n \<notin> fst ` set PROVIDER_PROFILES" by (simp add: map_of_eq_None_iff)
    with None Cons.IH show ?thesis by simp
  next
    case (Some p)
    then have "n \<in> fst ` set PROVIDER_PROFILES"
      by (metis map_of_eq_None_iff option.distinct(1))
    with Some Cons.IH show ?thesis by simp
  qed
qed

lemma provider_make_quote: "provider (make_quote n p mid amount f t) = n"
  by (simp add: make_quote_def Let_def)

text \<open>
  Claim C9. For a provider list that is not empty and a positive resolved rate,
  \<open>compare\<close> returns a Comparison with one quote per listed name that is in the
  table, in the order of the list; names that are not in the table are skipped and raise
  no error.
\<close>

theorem compare_skips_unknown:
  "ps \<noteq> [] \<Longrightarrow> 0 < get_mid_market_rate live f t \<Longrightarrow>
     \<exists>c. compare live amount f t (Some ps) = Inr c \<and>
         map provider (quotes c) = filter (\<lambda>n. n \<in> fst ` set PROVIDER_PROFILES) ps \<and>
         quotes c =
           map (\<lambda>n. make_quote n (the (map_of PROVIDER_PROFILES n))
                       (get_mid_market_rate live f t) amount f t)
               (filter (\<lambda>n. n \<in> fst ` set PROVIDER_PROFILES) ps)"
  by (simp add: compare_def Let_def build_quotes_eq provider_make_quote o_def)

theorem compare_skips_unknown_witness:
  "[''Wise'', ''Nope'', ''Sendwave''] \<noteq> [] \<and>
   0 < get_mid_market_rate None ''USD'' ''KES'' \<and>
   (\<exists>c. compare None 200 ''USD'' ''KES'' (Some [''Wise'', ''Nope'', ''Sendwave'']) = Inr c \<and>
        map provider (quotes c) = [''Wise'', ''Sendwave''])"
  using compare_skips_unknown [of "[''Wise'', ''Nope'', ''Sendwave'']" None "''USD''" "''KES''" 200]
  by (auto simp: get_mid_market_rate_def FALLBACKS_def PROVIDER_PROFILES_def)

text \<open>
  Claim C10. Called with the empty provider list, \<open>compare\<close> does what it does with
  no list at all: with a positive resolved rate it returns one quote per provider of the
  table, seven quotes.
\<close>

theorem compare_empty_list_is_all:
  "compare live amount f t (Some []) = compare live amount f t None \<and>
   (0 < get_mid_market_rate live f t \<longrightarrow>
      (\<exists>c. compare live amount f t (Some []) = Inr c \<and> length (quotes c) = 7 \<and>
           map provider (quotes c) =
             [''Wise'', ''Remitly'', ''WorldRemit'', ''Western Union'', ''Sendwave'',
              ''Mukuru'', ''LemFi'']))"
  by (simp add: compare_def Let_def PROVIDER_PROFILES_def provider_make_quote)

theorem compare_empty_list_is_all_witness:
  "0 < get_mid_market_rate None ''USD'' ''KES'' \<and>
   compare None 200 ''USD'' ''KES'' (Some []) = compare None 200 ''USD'' ''KES'' None \<and>
   (\<exists>c. compare None 200 ''USD'' ''KES'' (Some []) = Inr c \<and> length (quotes c) = 7)"
proof -
  have pos: "0 < get_mid_market_rate None ''USD'' ''KES''"
    by (simp add: get_mid_market_rate_def FALLBACKS_def)
  from compare_empty_list_is_all [of None 200 "''USD''" "''KES''"] pos
  have "compare None 200 ''USD'' ''KES'' (Some []) = compare None 200 ''USD'' ''KES'' None"
    and "\<exists>c. compare None 200 ''USD'' ''KES'' (Some []) = Inr c \<and> length (quotes c) = 7"
    by blast+
  with pos show ?thesis by blast
qed

subsection \<open>Rounding\<close>







lemma py_round2_exact: "py_round (of_int n / 100) 2 = of_int n / 100"
  by (simp add: py_round_def round_half_even_def)


subsection \<open>Derived values of a quote\<close>

text \<open>
  Claim C8. When some quote's delivery text contains M-Pesa, \<open>most_trusted\<close> returns
  one of those quotes and none of them has a smaller true cost percentage; when no quote's
  delivery text contains it, \<open>most_trusted\<close> returns what \<open>best_rate\<close> returns.
  For every provider of the table the delivery text built by \<open>compare\<close> contains
  M-Pesa exactly when the provider's delivery list does.
\<close>

theorem most_trusted_mpesa:
  "((\<exists>q \<in> set (quotes c). str_contains ''M-Pesa'' (delivery_method q)) \<longrightarrow>
      (\<exists>q. most_trusted c = Some q \<and> q \<in> set (quotes c) \<and>
           str_contains ''M-Pesa'' (delivery_method q) \<and>
           (\<forall>q' \<in> set (quotes c). str_contains ''M-Pesa'' (delivery_method q') \<longrightarrow>
                true_cost_percent q \<le> true_cost_percent q'))) \<and>
   ((\<forall>q \<in> set (quotes c). \<not> str_contains ''M-Pesa'' (delivery_method q)) \<longrightarrow>
      most_trusted c = best_rate c) \<and>
   (\<forall>(name, p) \<in> set PROVIDER_PROFILES.
      str_contains ''M-Pesa'' (join '', '' (delivery p)) = (''M-Pesa'' \<in> set (delivery p)))"
proof -
  let ?P = "\<lambda>q. str_contains ''M-Pesa'' (delivery_method q)"
  let ?m = "filter ?P (quotes c)"
  have some: "\<exists>q. most_trusted c = Some q \<and> q \<in> set (quotes c) \<and> ?P q \<and>
           (\<forall>q' \<in> set (quotes c). ?P q' \<longrightarrow> true_cost_percent q \<le> true_cost_percent q')"
    if ex: "\<exists>q \<in> set (quotes c). ?P q"
  proof -
    from ex have "?m \<noteq> []" by (simp add: filter_empty_conv)
    then obtain q0 qs where m: "?m = q0 # qs" by (cases ?m) auto
    let ?r = "min_from true_cost_percent q0 qs"
    have res: "most_trusted c = Some ?r" by (simp add: most_trusted_def m)
    have "?r \<in> set (q0 # qs)" by (rule min_from_mem)
    then have "?r \<in> set ?m" by (simp only: m)
    then have mem: "?r \<in> set (quotes c)" and p: "?P ?r" by simp_all
    have low: "true_cost_percent ?r \<le> true_cost_percent q'"
      if "q' \<in> set (quotes c)" "?P q'" for q'
    proof -
      from that have "q' \<in> set ?m" by simp
      then have "q' \<in> set (q0 # qs)" by (simp only: m)
      then show ?thesis
      proof (cases "q' = q0")
        case True
        then show ?thesis using min_from_le_best [of true_cost_percent q0 qs] by simp
      next
        case False
        with \<open>q' \<in> set (q0 # qs)\<close> have "q' \<in> set qs" by simp
        then show ?thesis by (rule min_from_le)
      qed
    qed
    from res mem p low show ?thesis by blast
  qed
  have none: "most_trusted c = best_rate c"
    if "\<forall>q \<in> set (quotes c). \<not> ?P q"
  proof -
    from that have "?m = []" by (simp add: filter_empty_conv)
    then show ?thesis by (simp add: most_trusted_def)
  qed
  have table: "\<forall>(name, p) \<in> set PROVIDER_PROFILES.
      str_contains ''M-Pesa'' (join '', '' (delivery p)) = (''M-Pesa'' \<in> set (delivery p))"
    by (simp add: PROVIDER_PROFILES_def)
  from some none table show ?thesis by blast
qed

theorem most_trusted_mpesa_witness:
  "str_contains ''M-Pesa''
     (delivery_method (make_quote_t ''MpesaProvider'' 25500 0 (8 / 10) ''minutes'' ''M-Pesa'')) \<and>
   most_trusted (make_comparison
        [make_quote_t ''BankOnly'' 26000 0 (1 / 2) ''days'' ''Bank deposit'',
         make_quote_t ''MpesaDear'' 25000 0 (9 / 10) ''minutes'' ''M-Pesa, Bank deposit'',
         make_quote_t ''MpesaProvider'' 25500 0 (8 / 10) ''minutes'' ''M-Pesa''])
     = Some (make_quote_t ''MpesaProvider'' 25500 0 (8 / 10) ''minutes'' ''M-Pesa'') \<and>
   \<not> str_contains ''M-Pesa''
     (delivery_method (make_quote_t ''BankOnly'' 26000 0 (1 / 2) ''days'' ''Bank deposit'')) \<and>
   \<not> str_contains ''M-Pesa''
     (delivery_method (make_quote_t ''Cash'' 25000 0 1 ''minutes'' ''Cash pickup'')) \<and>
   most_trusted (make_comparison
        [make_quote_t ''BankOnly'' 26000 0 (1 / 2) ''days'' ''Bank deposit'',
         make_quote_t ''Cash'' 25000 0 1 ''minutes'' ''Cash pickup''])
     = Some (make_quote_t ''BankOnly'' 26000 0 (1 / 2) ''days'' ''Bank deposit'') \<and>
   best_rate (make_comparison
        [make_quote_t ''BankOnly'' 26000 0 (1 / 2) ''days'' ''Bank deposit'',
         make_quote_t ''Cash'' 25000 0 1 ''minutes'' ''Cash pickup''])
     = Some (make_quote_t ''BankOnly'' 26000 0 (1 / 2) ''days'' ''Bank deposit'')"
  using most_trusted_mpesa [of "make_comparison
        [make_quote_t ''BankOnly'' 26000 0 (1 / 2) ''days'' ''Bank deposit'',
         make_quote_t ''MpesaDear'' 25000 0 (9 / 10) ''minutes'' ''M-Pesa, Bank deposit'',
         make_quote_t ''MpesaProvider'' 25500 0 (8 / 10) ''minutes'' ''M-Pesa'']"]
    most_trusted_mpesa [of "make_comparison
        [make_quote_t ''BankOnly'' 26000 0 (1 / 2) ''days'' ''Bank deposit'',
         make_quote_t ''Cash'' 25000 0 1 ''minutes'' ''Cash pickup'']"]
  by (simp add: make_comparison_def make_quote_t_def most_trusted_def best_rate_def
        true_cost_percent_def py_round_def round_half_even_def)

text \<open>
  Claim C5, as stated: the effective rate is receive amount over send amount minus fee,
  0 for a denominator that is not positive, rounded to 4 decimals. The source rounds to 2
  decimals: for the quote of the unit tests (send 200, fee 3.99, receive 25000) it returns
  127.54, not 127.5445.
\<close>

theorem effective_rate_counterexample:
  "kes_per_dollar_effective
     (make_quote_t ''TestProvider'' 25000 (399 / 100) (193 / 100) ''minutes'' ''M-Pesa'')
     = 12754 / 100 \<and>
   effective_rate_spec
     (make_quote_t ''TestProvider'' 25000 (399 / 100) (193 / 100) ''minutes'' ''M-Pesa'')
     = 1275445 / 10000 \<and>
   kes_per_dollar_effective
     (make_quote_t ''TestProvider'' 25000 (399 / 100) (193 / 100) ''minutes'' ''M-Pesa'')
     \<noteq> effective_rate_spec
         (make_quote_t ''TestProvider'' 25000 (399 / 100) (193 / 100) ''minutes'' ''M-Pesa'')"
  by code_simp

text \<open>
  Claim C5, amended: the effective rate is 0 when the send amount is not positive or send
  amount minus fee is not positive, and otherwise receive amount over send amount minus
  fee, rounded to 2 decimals.
\<close>

theorem effective_rate_two_decimals:
  "kes_per_dollar_effective q =
     (if Quote.send_amount q \<le> 0 \<or> Quote.send_amount q - fee q \<le> 0 then 0
      else py_round (receive_amount q / (Quote.send_amount q - fee q)) 2)"
  by (simp add: kes_per_dollar_effective_def Let_def not_less)

theorem effective_rate_two_decimals_witness:
  "kes_per_dollar_effective
     (make_quote_t ''TestProvider'' 25900 0 (193 / 100) ''minutes'' ''M-Pesa'') = 1295 / 10 \<and>
   kes_per_dollar_effective
     (make_quote_t ''TestProvider'' 25900 200 (193 / 100) ''minutes'' ''M-Pesa'') = 0"
  using effective_rate_two_decimals
          [of "make_quote_t ''TestProvider'' 25900 0 (193 / 100) ''minutes'' ''M-Pesa''"]
        effective_rate_two_decimals
          [of "make_quote_t ''TestProvider'' 25900 200 (193 / 100) ''minutes'' ''M-Pesa''"]
  by (simp add: make_quote_t_def py_round_def round_half_even_def)

subsection \<open>The receive amount of the quotes of compare\<close>







end
